theory Spec2Isabelle
  imports Main "HOL-Library.Word"
begin

section \<open>The packages the wrapper is built on\<close>

text \<open>
  The repository holds two Go packages, \<^verbatim>\<open>timeout\<close> (src/timeout.go) and
  \<^verbatim>\<open>httptimeout\<close> (src/unnamed/part_000). Both decorate \<^verbatim>\<open>net.Conn\<close> and
  \<^verbatim>\<open>net.Listener\<close>. Everything they call lives in Go's standard library
  (\<^verbatim>\<open>net\<close>, \<^verbatim>\<open>time\<close>, \<^verbatim>\<open>crypto/tls\<close>), which is not part of the
  repository: it is a parameter \<open>env\<close> of every definition below, acting on an
  arbitrary world \<open>'w\<close> (sockets, files, the clock). Every result is therefore proved
  for all implementations of those calls.
\<close>

type_synonym byte = "8 word"

text \<open>\<^verbatim>\<open>time.Duration\<close> is an \<^verbatim>\<open>int64\<close>; the wrapper only stores and forwards it.\<close>

type_synonym Duration = "64 word"

text \<open>A non-nil \<^verbatim>\<open>error\<close>; \<^verbatim>\<open>nil\<close> is \<open>None\<close> of \<open>error option\<close>.\<close>

datatype error = Error string

text \<open>Run-time panics of the Go code: a method call through a nil pointer or a nil interface.\<close>

datatype panic = NilDereference

text \<open>
  Values of the interfaces \<^verbatim>\<open>net.Conn\<close> and \<^verbatim>\<open>net.Listener\<close> handed out by the
  standard library are handles; the nil interface is \<open>None\<close>. A \<^verbatim>\<open>net.Addr\<close> is
  reduced to its network and string form.
\<close>

type_synonym net_Conn = nat
type_synonym net_Listener = nat
type_synonym net_Addr = "(string \<times> string) option"

datatype tls_Certificate = Certificate (Chain: "byte list list") (PrivateKey: "byte list")

text \<open>
  The two fields of \<^verbatim>\<open>tls.Config\<close> the source assigns; every other field keeps
  its zero value. A nil slice of protocols is \<open>None\<close>.
\<close>

record tls_Config =
  NextProtos :: "string list option"
  Certificates :: "tls_Certificate list"

text \<open>The result of \<^verbatim>\<open>Read\<close>/\<open>Write\<close>: byte count, error, and the buffer afterwards.\<close>

type_synonym io_result = "int \<times> error option \<times> byte list"

record ('w, 't) env =
  time_Now :: "'w \<Rightarrow> 't \<times> 'w"
  time_Add :: "'t \<Rightarrow> Duration \<Rightarrow> 't"
  net_Conn_Read :: "net_Conn \<Rightarrow> byte list \<Rightarrow> 'w \<Rightarrow> io_result \<times> 'w"
  net_Conn_Write :: "net_Conn \<Rightarrow> byte list \<Rightarrow> 'w \<Rightarrow> io_result \<times> 'w"
  net_Conn_Close :: "net_Conn \<Rightarrow> 'w \<Rightarrow> error option \<times> 'w"
  net_Conn_LocalAddr :: "net_Conn \<Rightarrow> 'w \<Rightarrow> net_Addr \<times> 'w"
  net_Conn_RemoteAddr :: "net_Conn \<Rightarrow> 'w \<Rightarrow> net_Addr \<times> 'w"
  net_Conn_SetDeadline :: "net_Conn \<Rightarrow> 't \<Rightarrow> 'w \<Rightarrow> error option \<times> 'w"
  net_Conn_SetReadDeadline :: "net_Conn \<Rightarrow> 't \<Rightarrow> 'w \<Rightarrow> error option \<times> 'w"
  net_Conn_SetWriteDeadline :: "net_Conn \<Rightarrow> 't \<Rightarrow> 'w \<Rightarrow> error option \<times> 'w"
  net_Listener_Accept :: "net_Listener \<Rightarrow> 'w \<Rightarrow> (net_Conn option \<times> error option) \<times> 'w"
  net_Listener_Close :: "net_Listener \<Rightarrow> 'w \<Rightarrow> error option \<times> 'w"
  net_Listener_Addr :: "net_Listener \<Rightarrow> 'w \<Rightarrow> net_Addr \<times> 'w"
  net_DialTimeout :: "string \<Rightarrow> string \<Rightarrow> Duration \<Rightarrow> 'w \<Rightarrow> (net_Conn option \<times> error option) \<times> 'w"
  net_Listen :: "string \<Rightarrow> string \<Rightarrow> 'w \<Rightarrow> (net_Listener option \<times> error option) \<times> 'w"
  tls_LoadX509KeyPair :: "string \<Rightarrow> string \<Rightarrow> 'w \<Rightarrow> (tls_Certificate \<times> error option) \<times> 'w"
  tls_NewListener :: "net_Listener option \<Rightarrow> tls_Config \<Rightarrow> 'w \<Rightarrow> net_Listener option \<times> 'w"

section \<open>The wrapper's data\<close>

text \<open>
  \<^verbatim>\<open>type Conn struct { net.Conn; ReadTimeout, WriteTimeout time.Duration }\<close> and
  \<^verbatim>\<open>type Listener struct { net.Listener; ReadTimeout, WriteTimeout time.Duration }\<close>,
  the same in both packages. The embedded interface is the field named after its type.
\<close>

record Conn =
  Conn :: "net_Conn option"
  ReadTimeout :: Duration
  WriteTimeout :: Duration

record Listener =
  Listener :: "net_Listener option"
  ReadTimeout :: Duration
  WriteTimeout :: Duration

text \<open>
  The code works with \<^verbatim>\<open>*Conn\<close> and \<^verbatim>\<open>*Listener\<close>. The structs live in two
  stores; a pointer is an index, \<^verbatim>\<open>&Conn{...}\<close> appends, and an index outside the store
  stands for the nil pointer. The stores are apart from the world \<open>'w\<close>: the standard
  library holds no reference to a wrapper struct.
\<close>

record 'w state =
  world :: 'w
  conns :: "Conn list"
  listeners :: "Listener list"

definition deref :: "'a list \<Rightarrow> nat \<Rightarrow> 'a option" where
  "deref store p = (if p < length store then Some (store ! p) else None)"

type_synonym ('a, 'w) outcome = "panic + ('a \<times> 'w state)"

section \<open>Conn\<close>

text \<open>
  \<^verbatim>\<open>
  func (c *Conn) Read(b []byte) (int, error) {
      err := c.Conn.SetReadDeadline(time.Now().Add(c.ReadTimeout))
      if err != nil {
          return 0, err
      }
      return c.Conn.Read(b)
  }
  \<close>
\<close>

definition Conn_Read :: "('w, 't) env \<Rightarrow> nat \<Rightarrow> byte list \<Rightarrow> 'w state \<Rightarrow> (io_result, 'w) outcome" where
  "Conn_Read env c b s =
     (case deref (conns s) c of
        None \<Rightarrow> Inl NilDereference
      | Some cv \<Rightarrow>
          (case Conn.Conn cv of
             None \<Rightarrow> Inl NilDereference
           | Some u \<Rightarrow>
               (let (now, w1) = time_Now env (world s);
                    (err, w2) = net_Conn_SetReadDeadline env u (time_Add env now (Conn.ReadTimeout cv)) w1
                in if err \<noteq> None then Inr ((0, err, b), s\<lparr>world := w2\<rparr>)
                   else (let (r, w3) = net_Conn_Read env u b w2 in Inr (r, s\<lparr>world := w3\<rparr>)))))"

text \<open>
  \<^verbatim>\<open>
  func (c *Conn) Write(b []byte) (int, error) {
      err := c.Conn.SetWriteDeadline(time.Now().Add(c.WriteTimeout))
      if err != nil {
          return 0, err
      }
      return c.Conn.Write(b)
  }
  \<close>
\<close>

definition Conn_Write :: "('w, 't) env \<Rightarrow> nat \<Rightarrow> byte list \<Rightarrow> 'w state \<Rightarrow> (io_result, 'w) outcome" where
  "Conn_Write env c b s =
     (case deref (conns s) c of
        None \<Rightarrow> Inl NilDereference
      | Some cv \<Rightarrow>
          (case Conn.Conn cv of
             None \<Rightarrow> Inl NilDereference
           | Some u \<Rightarrow>
               (let (now, w1) = time_Now env (world s);
                    (err, w2) = net_Conn_SetWriteDeadline env u (time_Add env now (Conn.WriteTimeout cv)) w1
                in if err \<noteq> None then Inr ((0, err, b), s\<lparr>world := w2\<rparr>)
                   else (let (r, w3) = net_Conn_Write env u b w2 in Inr (r, s\<lparr>world := w3\<rparr>)))))"

text \<open>
  The remaining methods of \<^verbatim>\<open>net.Conn\<close> are not written in the source: embedding
  promotes them, so \<^verbatim>\<open>c.Close()\<close> is \<^verbatim>\<open>c.Conn.Close()\<close>, and likewise for the others.
  \<open>promoted\<close> is that forwarding through the pointer and the embedded interface.
\<close>

definition promoted :: "'c list \<Rightarrow> ('c \<Rightarrow> nat option) \<Rightarrow> (nat \<Rightarrow> 'w \<Rightarrow> 'r \<times> 'w) \<Rightarrow> nat \<Rightarrow> 'w state \<Rightarrow> ('r, 'w) outcome" where
  "promoted store embedded method p s =
     (case deref store p of
        None \<Rightarrow> Inl NilDereference
      | Some v \<Rightarrow>
          (case embedded v of
             None \<Rightarrow> Inl NilDereference
           | Some u \<Rightarrow> (let (r, w1) = method u (world s) in Inr (r, s\<lparr>world := w1\<rparr>))))"

definition Conn_Close :: "('w, 't) env \<Rightarrow> nat \<Rightarrow> 'w state \<Rightarrow> (error option, 'w) outcome" where
  "Conn_Close env c s = promoted (conns s) Conn.Conn (net_Conn_Close env) c s"

definition Conn_LocalAddr :: "('w, 't) env \<Rightarrow> nat \<Rightarrow> 'w state \<Rightarrow> (net_Addr, 'w) outcome" where
  "Conn_LocalAddr env c s = promoted (conns s) Conn.Conn (net_Conn_LocalAddr env) c s"

definition Conn_RemoteAddr :: "('w, 't) env \<Rightarrow> nat \<Rightarrow> 'w state \<Rightarrow> (net_Addr, 'w) outcome" where
  "Conn_RemoteAddr env c s = promoted (conns s) Conn.Conn (net_Conn_RemoteAddr env) c s"

definition Conn_SetDeadline :: "('w, 't) env \<Rightarrow> nat \<Rightarrow> 't \<Rightarrow> 'w state \<Rightarrow> (error option, 'w) outcome" where
  "Conn_SetDeadline env c t s = promoted (conns s) Conn.Conn (\<lambda>u. net_Conn_SetDeadline env u t) c s"

definition Conn_SetReadDeadline :: "('w, 't) env \<Rightarrow> nat \<Rightarrow> 't \<Rightarrow> 'w state \<Rightarrow> (error option, 'w) outcome" where
  "Conn_SetReadDeadline env c t s = promoted (conns s) Conn.Conn (\<lambda>u. net_Conn_SetReadDeadline env u t) c s"

definition Conn_SetWriteDeadline :: "('w, 't) env \<Rightarrow> nat \<Rightarrow> 't \<Rightarrow> 'w state \<Rightarrow> (error option, 'w) outcome" where
  "Conn_SetWriteDeadline env c t s = promoted (conns s) Conn.Conn (\<lambda>u. net_Conn_SetWriteDeadline env u t) c s"

section \<open>Listener\<close>

text \<open>
  \<^verbatim>\<open>
  func (l *Listener) Accept() (net.Conn, error) {
      c, err := l.Listener.Accept()
      if err != nil {
          return nil, err
      }
      tc := &Conn{
          Conn:         c,
          ReadTimeout:  l.ReadTimeout,
          WriteTimeout: l.WriteTimeout,
      }
      return tc, nil
  }
  \<close>
  The returned \<^verbatim>\<open>net.Conn\<close> is nil or the new \<^verbatim>\<open>*Conn\<close>: a pointer option.
\<close>

definition Listener_Accept :: "('w, 't) env \<Rightarrow> nat \<Rightarrow> 'w state \<Rightarrow> (nat option \<times> error option, 'w) outcome" where
  "Listener_Accept env l s =
     (case deref (listeners s) l of
        None \<Rightarrow> Inl NilDereference
      | Some lv \<Rightarrow>
          (case Listener.Listener lv of
             None \<Rightarrow> Inl NilDereference
           | Some u \<Rightarrow>
               (let ((c, err), w1) = net_Listener_Accept env u (world s)
                in if err \<noteq> None then Inr ((None, err), s\<lparr>world := w1\<rparr>)
                   else (let tc = \<lparr>Conn = c,
                                   ReadTimeout = Listener.ReadTimeout lv,
                                   WriteTimeout = Listener.WriteTimeout lv\<rparr>
                         in Inr ((Some (length (conns s)), None),
                                 s\<lparr>world := w1, conns := conns s @ [tc]\<rparr>)))))"

text \<open>Promoted from the embedded \<^verbatim>\<open>net.Listener\<close>.\<close>

definition Listener_Close :: "('w, 't) env \<Rightarrow> nat \<Rightarrow> 'w state \<Rightarrow> (error option, 'w) outcome" where
  "Listener_Close env l s = promoted (listeners s) Listener.Listener (net_Listener_Close env) l s"

definition Listener_Addr :: "('w, 't) env \<Rightarrow> nat \<Rightarrow> 'w state \<Rightarrow> (net_Addr, 'w) outcome" where
  "Listener_Addr env l s = promoted (listeners s) Listener.Listener (net_Listener_Addr env) l s"

section \<open>Constructors of package \<^verbatim>\<open>timeout\<close> (src/timeout.go)\<close>

text \<open>
  Of \<^verbatim>\<open>http.Transport\<close> the source sets the field \<^verbatim>\<open>Dial\<close> only; a nil function
  value is \<open>None\<close>. The dialled connection comes back as nil or the new \<^verbatim>\<open>*Conn\<close>.
\<close>

type_synonym 'w dial_func = "string \<Rightarrow> string \<Rightarrow> 'w state \<Rightarrow> (nat option \<times> error option) \<times> 'w state"

record 'w http_Transport =
  Dial :: "'w dial_func option"

text \<open>
  \<^verbatim>\<open>
  func NewTransport(addr string, timeout time.Duration) *http.Transport {
      t := &http.Transport{}
      t.Dial = func(network, addr string) (net.Conn, error) {
          conn, err := net.DialTimeout(network, addr, timeout)
          if err != nil {
              return nil, err
          }
          tc := &Conn{
              Conn:         conn,
              ReadTimeout:  timeout,
              WriteTimeout: timeout,
          }
          return tc, nil
      }
      return t
  }
  \<close>
  The closure's parameter \<^verbatim>\<open>addr\<close> hides the constructor's parameter of the same name,
  in the source and here.
\<close>

definition timeout_NewTransport :: "('w, 't) env \<Rightarrow> string \<Rightarrow> Duration \<Rightarrow> 'w http_Transport" where
  "timeout_NewTransport env addr timeout =
     (let t = \<lparr>Dial = None\<rparr>;
          t = t\<lparr>Dial := Some (\<lambda>network addr s.
                (let ((conn, err), w1) = net_DialTimeout env network addr timeout (world s)
                 in if err \<noteq> None then ((None, err), s\<lparr>world := w1\<rparr>)
                    else (let tc = \<lparr>Conn = conn,
                                    ReadTimeout = timeout,
                                    WriteTimeout = timeout\<rparr>
                          in ((Some (length (conns s)), None),
                              s\<lparr>world := w1, conns := conns s @ [tc]\<rparr>))))\<rparr>
      in t)"

text \<open>
  \<^verbatim>\<open>
  func NewListener(addr string, readTimeout, writeTimeout time.Duration) (net.Listener, error) {
      conn, err := net.Listen("tcp", addr)
      if err != nil {
          return nil, err
      }
      tl := &Listener{
          Listener:     conn,
          ReadTimeout:  readTimeout,
          WriteTimeout: writeTimeout,
      }
      return tl, nil
  }
  \<close>
\<close>

definition timeout_NewListener ::
  "('w, 't) env \<Rightarrow> string \<Rightarrow> Duration \<Rightarrow> Duration \<Rightarrow> 'w state \<Rightarrow> (nat option \<times> error option) \<times> 'w state" where
  "timeout_NewListener env addr readTimeout writeTimeout s =
     (let ((conn, err), w1) = net_Listen env ''tcp'' addr (world s)
      in if err \<noteq> None then ((None, err), s\<lparr>world := w1\<rparr>)
         else (let tl = \<lparr>Listener = conn,
                         ReadTimeout = readTimeout,
                         WriteTimeout = writeTimeout\<rparr>
               in ((Some (length (listeners s)), None),
                   s\<lparr>world := w1, listeners := listeners s @ [tl]\<rparr>)))"

text \<open>
  \<^verbatim>\<open>
  func NewListenerTLS(addr, certFile, keyFile string, readTimeout, writeTimeout time.Duration) (net.Listener, error) {
      config := &tls.Config{}
      if config.NextProtos == nil {
          config.NextProtos = []string{"http/1.1"}
      }

      var err error
      config.Certificates = make([]tls.Certificate, 1)
      config.Certificates[0], err = tls.LoadX509KeyPair(certFile, keyFile)
      if err != nil {
          return nil, err
      }

      conn, err := net.Listen("tcp", addr)
      if err != nil {
          return nil, err
      }
      tl := &Listener{
          Listener:     tls.NewListener(conn, config),
          ReadTimeout:  readTimeout,
          WriteTimeout: writeTimeout,
      }
      return tl, nil
  }
  \<close>
\<close>

definition timeout_NewListenerTLS ::
  "('w, 't) env \<Rightarrow> string \<Rightarrow> string \<Rightarrow> string \<Rightarrow> Duration \<Rightarrow> Duration \<Rightarrow> 'w state
     \<Rightarrow> (nat option \<times> error option) \<times> 'w state" where
  "timeout_NewListenerTLS env addr certFile keyFile readTimeout writeTimeout s =
     (let config = \<lparr>NextProtos = None, Certificates = []\<rparr>;
          config = (if NextProtos config = None
                    then config\<lparr>NextProtos := Some [''http/1.1'']\<rparr> else config);
          config = config\<lparr>Certificates := replicate 1 (Certificate [] [])\<rparr>;
          ((cert, err), w1) = tls_LoadX509KeyPair env certFile keyFile (world s);
          config = config\<lparr>Certificates := (Certificates config)[0 := cert]\<rparr>
      in if err \<noteq> None then ((None, err), s\<lparr>world := w1\<rparr>)
         else (let ((conn, err), w2) = net_Listen env ''tcp'' addr w1
               in if err \<noteq> None then ((None, err), s\<lparr>world := w2\<rparr>)
                  else (let (inner, w3) = tls_NewListener env conn config w2;
                            tl = \<lparr>Listener = inner,
                                  ReadTimeout = readTimeout,
                                  WriteTimeout = writeTimeout\<rparr>
                        in ((Some (length (listeners s)), None),
                            s\<lparr>world := w3, listeners := listeners s @ [tl]\<rparr>))))"

section \<open>Constructors of package \<^verbatim>\<open>httptimeout\<close> (src/unnamed/part_000)\<close>

text \<open>
  \<^verbatim>\<open>
  func NewTransport(addr string, readTimeout, writeTimeout time.Duration) *http.Transport {
      t := &http.Transport{}
      t.Dial = func(network, addr string) (net.Conn, error) {
          conn, err := net.DialTimeout(network, addr, readTimeout)
          if err != nil {
              return nil, err
          }
          tc := &Conn{
              Conn:         conn,
              ReadTimeout:  readTimeout,
              WriteTimeout: writeTimeout,
          }
          return tc, nil
      }
      return t
  }
  \<close>
\<close>

definition httptimeout_NewTransport ::
  "('w, 't) env \<Rightarrow> string \<Rightarrow> Duration \<Rightarrow> Duration \<Rightarrow> 'w http_Transport" where
  "httptimeout_NewTransport env addr readTimeout writeTimeout =
     (let t = \<lparr>Dial = None\<rparr>;
          t = t\<lparr>Dial := Some (\<lambda>network addr s.
                (let ((conn, err), w1) = net_DialTimeout env network addr readTimeout (world s)
                 in if err \<noteq> None then ((None, err), s\<lparr>world := w1\<rparr>)
                    else (let tc = \<lparr>Conn = conn,
                                    ReadTimeout = readTimeout,
                                    WriteTimeout = writeTimeout\<rparr>
                          in ((Some (length (conns s)), None),
                              s\<lparr>world := w1, conns := conns s @ [tc]\<rparr>))))\<rparr>
      in t)"

text \<open>
  \<^verbatim>\<open>
  func NewListener(network, addr string, readTimeout, writeTimeout time.Duration) (net.Listener, error) {
      conn, err := net.Listen(network, addr)
      if err != nil {
          return nil, err
      }

      tl := &Listener{
          Listener:     conn,
          ReadTimeout:  readTimeout,
          WriteTimeout: writeTimeout,
      }
      return tl, nil
  }
  \<close>
\<close>

definition httptimeout_NewListener ::
  "('w, 't) env \<Rightarrow> string \<Rightarrow> string \<Rightarrow> Duration \<Rightarrow> Duration \<Rightarrow> 'w state
     \<Rightarrow> (nat option \<times> error option) \<times> 'w state" where
  "httptimeout_NewListener env network addr readTimeout writeTimeout s =
     (let ((conn, err), w1) = net_Listen env network addr (world s)
      in if err \<noteq> None then ((None, err), s\<lparr>world := w1\<rparr>)
         else (let tl = \<lparr>Listener = conn,
                         ReadTimeout = readTimeout,
                         WriteTimeout = writeTimeout\<rparr>
               in ((Some (length (listeners s)), None),
                   s\<lparr>world := w1, listeners := listeners s @ [tl]\<rparr>)))"

text \<open>
  \<^verbatim>\<open>
  func NewListenerTLS(network, addr, certFile, keyFile string, readTimeout, writeTimeout time.Duration) (net.Listener, error) {
      config := &tls.Config{}
      if config.NextProtos == nil {
          config.NextProtos = []string{"http/1.1"}
      }

      var err error
      config.Certificates = make([]tls.Certificate, 1)
      config.Certificates[0], err = tls.LoadX509KeyPair(certFile, keyFile)
      if err != nil {
          return nil, err
      }

      conn, err := net.Listen(network, addr)
      if err != nil {
          return nil, err
      }
      tl := &Listener{
          Listener:     tls.NewListener(conn, config),
          ReadTimeout:  readTimeout,
          WriteTimeout: writeTimeout,
      }
      return tl, nil
  }
  \<close>
\<close>

definition httptimeout_NewListenerTLS ::
  "('w, 't) env \<Rightarrow> string \<Rightarrow> string \<Rightarrow> string \<Rightarrow> string \<Rightarrow> Duration \<Rightarrow> Duration \<Rightarrow> 'w state
     \<Rightarrow> (nat option \<times> error option) \<times> 'w state" where
  "httptimeout_NewListenerTLS env network addr certFile keyFile readTimeout writeTimeout s =
     (let config = \<lparr>NextProtos = None, Certificates = []\<rparr>;
          config = (if NextProtos config = None
                    then config\<lparr>NextProtos := Some [''http/1.1'']\<rparr> else config);
          config = config\<lparr>Certificates := replicate 1 (Certificate [] [])\<rparr>;
          ((cert, err), w1) = tls_LoadX509KeyPair env certFile keyFile (world s);
          config = config\<lparr>Certificates := (Certificates config)[0 := cert]\<rparr>
      in if err \<noteq> None then ((None, err), s\<lparr>world := w1\<rparr>)
         else (let ((conn, err), w2) = net_Listen env network addr w1
               in if err \<noteq> None then ((None, err), s\<lparr>world := w2\<rparr>)
                  else (let (inner, w3) = tls_NewListener env conn config w2;
                            tl = \<lparr>Listener = inner,
                                  ReadTimeout = readTimeout,
                                  WriteTimeout = writeTimeout\<rparr>
                        in ((Some (length (listeners s)), None),
                            s\<lparr>world := w3, listeners := listeners s @ [tl]\<rparr>))))"

section \<open>Clients\<close>

text \<open>
  What a program using the packages can do with them: call a method of a \<^verbatim>\<open>*Conn\<close> or a
  \<^verbatim>\<open>*Listener\<close>, call a constructor, or (as \<^verbatim>\<open>net/http\<close> does) call the
  \<^verbatim>\<open>Dial\<close> function of a transport a constructor returned. Calling a nil function value
  panics. \<open>run\<close> is a sequence of such calls; a panic ends it.
\<close>

datatype 't operation =
    Op_Read nat "byte list"
  | Op_Write nat "byte list"
  | Op_Close nat
  | Op_LocalAddr nat
  | Op_RemoteAddr nat
  | Op_SetDeadline nat 't
  | Op_SetReadDeadline nat 't
  | Op_SetWriteDeadline nat 't
  | Op_Accept nat
  | Op_ListenerClose nat
  | Op_ListenerAddr nat
  | Op_timeout_Dial string Duration string string
  | Op_timeout_NewListener string Duration Duration
  | Op_timeout_NewListenerTLS string string string Duration Duration
  | Op_httptimeout_Dial string Duration Duration string string
  | Op_httptimeout_NewListener string string Duration Duration
  | Op_httptimeout_NewListenerTLS string string string string Duration Duration

definition call_dial :: "'w http_Transport \<Rightarrow> string \<Rightarrow> string \<Rightarrow> 'w state \<Rightarrow> (nat option \<times> error option, 'w) outcome" where
  "call_dial t network addr s =
     (case Dial t of None \<Rightarrow> Inl NilDereference | Some dial \<Rightarrow> Inr (dial network addr s))"

fun invoke :: "('w, 't) env \<Rightarrow> 't operation \<Rightarrow> 'w state \<Rightarrow> panic + 'w state" where
  "invoke env (Op_Read c b) s = map_sum id snd (Conn_Read env c b s)"
| "invoke env (Op_Write c b) s = map_sum id snd (Conn_Write env c b s)"
| "invoke env (Op_Close c) s = map_sum id snd (Conn_Close env c s)"
| "invoke env (Op_LocalAddr c) s = map_sum id snd (Conn_LocalAddr env c s)"
| "invoke env (Op_RemoteAddr c) s = map_sum id snd (Conn_RemoteAddr env c s)"
| "invoke env (Op_SetDeadline c t) s = map_sum id snd (Conn_SetDeadline env c t s)"
| "invoke env (Op_SetReadDeadline c t) s = map_sum id snd (Conn_SetReadDeadline env c t s)"
| "invoke env (Op_SetWriteDeadline c t) s = map_sum id snd (Conn_SetWriteDeadline env c t s)"
| "invoke env (Op_Accept l) s = map_sum id snd (Listener_Accept env l s)"
| "invoke env (Op_ListenerClose l) s = map_sum id snd (Listener_Close env l s)"
| "invoke env (Op_ListenerAddr l) s = map_sum id snd (Listener_Addr env l s)"
| "invoke env (Op_timeout_Dial a d network addr) s =
     map_sum id snd (call_dial (timeout_NewTransport env a d) network addr s)"
| "invoke env (Op_timeout_NewListener addr r w) s = Inr (snd (timeout_NewListener env addr r w s))"
| "invoke env (Op_timeout_NewListenerTLS addr cf kf r w) s =
     Inr (snd (timeout_NewListenerTLS env addr cf kf r w s))"
| "invoke env (Op_httptimeout_Dial a r w network addr) s =
     map_sum id snd (call_dial (httptimeout_NewTransport env a r w) network addr s)"
| "invoke env (Op_httptimeout_NewListener network addr r w) s =
     Inr (snd (httptimeout_NewListener env network addr r w s))"
| "invoke env (Op_httptimeout_NewListenerTLS network addr cf kf r w) s =
     Inr (snd (httptimeout_NewListenerTLS env network addr cf kf r w s))"

fun run :: "('w, 't) env \<Rightarrow> 't operation list \<Rightarrow> 'w state \<Rightarrow> panic + 'w state" where
  "run env [] s = Inr s"
| "run env (m # ms) s = (case invoke env m s of Inl p \<Rightarrow> Inl p | Inr s1 \<Rightarrow> run env ms s1)"

text \<open>
  \<open>extends s s1\<close>: every struct allocated in \<open>s\<close> is still there in \<open>s1\<close>, with the
  same fields; \<open>s1\<close> may hold more.
\<close>

definition extends :: "'w state \<Rightarrow> 'w state \<Rightarrow> bool" where
  "extends s s1 \<longleftrightarrow> take (length (conns s)) (conns s1) = conns s \<and>
                   take (length (listeners s)) (listeners s1) = listeners s"

section \<open>A scripted standard library\<close>

text \<open>
  One concrete \<open>env\<close>, to run the definitions on. Its world is the log of the calls made
  to it, and its clock reads 1000 plus the number of calls so far. The connection with
  handle 0 and the listener with handle 0 are closed; the host \<^verbatim>\<open>down\<close> does not answer;
  port 1 may not be bound; the file \<^verbatim>\<open>none.pem\<close> does not exist. New handles are numbered
  by the length of the log.
\<close>

datatype call =
    Call_Now
  | Call_SetDeadline net_Conn int
  | Call_SetReadDeadline net_Conn int
  | Call_SetWriteDeadline net_Conn int
  | Call_Read net_Conn
  | Call_Write net_Conn "byte list"
  | Call_Close net_Conn
  | Call_LocalAddr net_Conn
  | Call_RemoteAddr net_Conn
  | Call_Accept net_Listener
  | Call_ListenerClose net_Listener
  | Call_ListenerAddr net_Listener
  | Call_DialTimeout string string Duration
  | Call_Listen string string
  | Call_LoadX509KeyPair string string
  | Call_NewListener "net_Listener option" tls_Config

definition scripted :: "(call list, int) env" where
  "scripted =
     \<lparr>time_Now = (\<lambda>w. (1000 + int (length w), w @ [Call_Now])),
      time_Add = (\<lambda>t d. t + sint d),
      net_Conn_Read = (\<lambda>u b w. ((if b = [] then 0 else 1, None, b[0 := 104]), w @ [Call_Read u])),
      net_Conn_Write = (\<lambda>u b w. ((int (length b), None, b), w @ [Call_Write u b])),
      net_Conn_Close = (\<lambda>u w. (if u = 0 then Some (Error ''use of closed network connection'') else None, w @ [Call_Close u])),
      net_Conn_LocalAddr = (\<lambda>u w. (Some (''tcp'', ''127.0.0.1:8080''), w @ [Call_LocalAddr u])),
      net_Conn_RemoteAddr = (\<lambda>u w. (Some (''tcp'', ''10.0.0.2:4711''), w @ [Call_RemoteAddr u])),
      net_Conn_SetDeadline = (\<lambda>u t w. (if u = 0 then Some (Error ''use of closed network connection'') else None, w @ [Call_SetDeadline u t])),
      net_Conn_SetReadDeadline = (\<lambda>u t w. (if u = 0 then Some (Error ''use of closed network connection'') else None, w @ [Call_SetReadDeadline u t])),
      net_Conn_SetWriteDeadline = (\<lambda>u t w. (if u = 0 then Some (Error ''use of closed network connection'') else None, w @ [Call_SetWriteDeadline u t])),
      net_Listener_Accept = (\<lambda>l w. (if l = 0 then (None, Some (Error ''use of closed network connection'')) else (Some (Suc (length w)), None), w @ [Call_Accept l])),
      net_Listener_Close = (\<lambda>l w. (None, w @ [Call_ListenerClose l])),
      net_Listener_Addr = (\<lambda>l w. (Some (''tcp'', ''[::]:8080''), w @ [Call_ListenerAddr l])),
      net_DialTimeout = (\<lambda>network addr d w. (if addr = ''down:80'' then (None, Some (Error ''i/o timeout'')) else (Some (Suc (length w)), None), w @ [Call_DialTimeout network addr d])),
      net_Listen = (\<lambda>network addr w. (if addr = '':1'' then (None, Some (Error ''permission denied'')) else (Some (Suc (length w)), None), w @ [Call_Listen network addr])),
      tls_LoadX509KeyPair = (\<lambda>certFile keyFile w. (if certFile = ''none.pem'' then (Certificate [] [], Some (Error ''no such file or directory'')) else (Certificate [[48]] [49], None), w @ [Call_LoadX509KeyPair certFile keyFile])),
      tls_NewListener = (\<lambda>inner config w. (Some (Suc (length w)), w @ [Call_NewListener inner config]))\<rparr>"

definition served :: "call list state" where
  "served =
     \<lparr>world = [],
      conns = [\<lparr>Conn = Some 0, ReadTimeout = 5, WriteTimeout = 9\<rparr>,
               \<lparr>Conn = Some 7, ReadTimeout = 5, WriteTimeout = 9\<rparr>],
      listeners = [\<lparr>Listener = Some 0, ReadTimeout = 3, WriteTimeout = 4\<rparr>,
                   \<lparr>Listener = Some 2, ReadTimeout = 3, WriteTimeout = 4\<rparr>]\<rparr>"

section \<open>Allocated structs are never written\<close>

lemma extends_refl: "extends s s"
  by (simp add: extends_def)

lemma prefix_take_trans:
  assumes "take (length xs) ys = xs" and "take (length ys) zs = ys"
  shows "take (length xs) zs = xs"
proof -
  from assms(1) have "length (take (length xs) ys) = length xs"
    by simp
  then have le: "length xs \<le> length ys"
    by simp
  have "take (length xs) zs = take (length xs) (take (length ys) zs)"
    using le by (simp add: min_def)
  with assms show ?thesis by simp
qed

lemma extends_trans: "extends s s1 \<Longrightarrow> extends s1 s2 \<Longrightarrow> extends s s2"
  unfolding extends_def by (blast intro: prefix_take_trans)

lemma extends_world: "extends s (s\<lparr>world := w\<rparr>)"
  by (simp add: extends_def)

lemma promoted_extends: "promoted store emb m p s = Inr (r, s1) \<Longrightarrow> extends s s1"
  by (auto simp: promoted_def extends_def split: option.splits prod.splits)

lemma Conn_Read_extends: "Conn_Read env c b s = Inr (r, s1) \<Longrightarrow> extends s s1"
  by (auto simp: Conn_Read_def extends_def split: option.splits prod.splits if_splits)

lemma Conn_Write_extends: "Conn_Write env c b s = Inr (r, s1) \<Longrightarrow> extends s s1"
  by (auto simp: Conn_Write_def extends_def split: option.splits prod.splits if_splits)

lemma Listener_Accept_extends: "Listener_Accept env l s = Inr (r, s1) \<Longrightarrow> extends s s1"
  by (auto simp: Listener_Accept_def extends_def split: option.splits prod.splits if_splits)

lemma timeout_dial_extends:
  "call_dial (timeout_NewTransport env a d) network addr s = Inr (r, s1) \<Longrightarrow> extends s s1"
  by (auto simp: call_dial_def timeout_NewTransport_def extends_def split: prod.splits if_splits)

lemma httptimeout_dial_extends:
  "call_dial (httptimeout_NewTransport env a d e) network addr s = Inr (r, s1) \<Longrightarrow> extends s s1"
  by (auto simp: call_dial_def httptimeout_NewTransport_def extends_def split: prod.splits if_splits)

lemma timeout_NewListener_extends: "extends s (snd (timeout_NewListener env addr r w s))"
  by (auto simp: timeout_NewListener_def extends_def split: prod.splits)

lemma httptimeout_NewListener_extends: "extends s (snd (httptimeout_NewListener env network addr r w s))"
  by (auto simp: httptimeout_NewListener_def extends_def split: prod.splits)

lemma timeout_NewListenerTLS_extends: "extends s (snd (timeout_NewListenerTLS env addr cf kf r w s))"
  by (auto simp: timeout_NewListenerTLS_def extends_def Let_def split: prod.splits)

lemma httptimeout_NewListenerTLS_extends:
  "extends s (snd (httptimeout_NewListenerTLS env network addr cf kf r w s))"
  by (auto simp: httptimeout_NewListenerTLS_def extends_def Let_def split: prod.splits)

lemma map_sum_snd_Inr: "map_sum id snd x = Inr s1 \<Longrightarrow> \<exists>r. x = Inr (r, s1)"
  by (cases x) auto

lemma invoke_extends: "invoke env m s = Inr s1 \<Longrightarrow> extends s s1"
proof (cases m)
  case (Op_Read c b)
  then show "invoke env m s = Inr s1 \<Longrightarrow> extends s s1"
    by (auto dest!: map_sum_snd_Inr Conn_Read_extends)
next
  case (Op_Write c b)
  then show "invoke env m s = Inr s1 \<Longrightarrow> extends s s1"
    by (auto dest!: map_sum_snd_Inr Conn_Write_extends)
next
  case (Op_Accept l)
  then show "invoke env m s = Inr s1 \<Longrightarrow> extends s s1"
    by (auto dest!: map_sum_snd_Inr Listener_Accept_extends)
next
  case (Op_timeout_Dial a d network addr)
  then show "invoke env m s = Inr s1 \<Longrightarrow> extends s s1"
    by (auto dest!: map_sum_snd_Inr timeout_dial_extends)
next
  case (Op_httptimeout_Dial a r w network addr)
  then show "invoke env m s = Inr s1 \<Longrightarrow> extends s s1"
    by (auto dest!: map_sum_snd_Inr httptimeout_dial_extends)
qed (auto simp: Conn_Close_def Conn_LocalAddr_def Conn_RemoteAddr_def Conn_SetDeadline_def
      Conn_SetReadDeadline_def Conn_SetWriteDeadline_def Listener_Close_def Listener_Addr_def
      timeout_NewListener_extends httptimeout_NewListener_extends
      timeout_NewListenerTLS_extends httptimeout_NewListenerTLS_extends
      dest!: map_sum_snd_Inr promoted_extends)

lemma run_extends: "run env ms s = Inr s1 \<Longrightarrow> extends s s1"
proof (induction ms arbitrary: s)
  case Nil
  then show ?case by (simp add: extends_refl)
next
  case (Cons m ms)
  from Cons.prems obtain s2 where step: "invoke env m s = Inr s2" and rest: "run env ms s2 = Inr s1"
    by (auto split: sum.splits)
  from invoke_extends[OF step] Cons.IH[OF rest] show ?case
    by (rule extends_trans)
qed

lemma extends_deref_conns: "extends s s1 \<Longrightarrow> deref (conns s) c = Some cv \<Longrightarrow> deref (conns s1) c = Some cv"
  unfolding extends_def deref_def
  by (metis length_take min_less_iff_conj nth_take option.distinct(1))

lemma extends_deref_listeners:
  "extends s s1 \<Longrightarrow> deref (listeners s) l = Some lv \<Longrightarrow> deref (listeners s1) l = Some lv"
  unfolding extends_def deref_def
  by (metis length_take min_less_iff_conj nth_take option.distinct(1))

lemma timeout_NewListener_tcp:
  "timeout_NewListener env addr rt wt s = httptimeout_NewListener env ''tcp'' addr rt wt s"
  by (simp add: timeout_NewListener_def httptimeout_NewListener_def)

lemma timeout_NewListenerTLS_tcp:
  "timeout_NewListenerTLS env addr certFile keyFile rt wt s =
   httptimeout_NewListenerTLS env ''tcp'' addr certFile keyFile rt wt s"
  by (simp add: timeout_NewListenerTLS_def httptimeout_NewListenerTLS_def)

section \<open>Properties\<close>

text \<open>
  \<^bold>\<open>C1.\<close> Let \<open>c\<close> point to a \<open>Conn\<close> around the connection \<open>u\<close>. \<open>Read\<close> takes the time
  \<open>now\<close> and sets the read deadline of \<open>u\<close> to \<open>now\<close> plus \<open>ReadTimeout\<close>. If that call
  returns an error, \<open>Read\<close> returns 0 and this error, the buffer is as it was, the world is
  as the deadline call left it, and the outcome is the same whatever \<^verbatim>\<open>u.Read\<close> would do:
  it is not called. Otherwise \<open>Read\<close> returns what \<^verbatim>\<open>u.Read(b)\<close> returns, and leaves the
  world as that call leaves it. \<open>Write\<close> does the same with \<open>WriteTimeout\<close>, the write
  deadline and \<^verbatim>\<open>u.Write\<close>.
\<close>

theorem Conn_Read_Write_deadline_first:
  assumes "deref (conns s) c = Some cv"
    and "Conn.Conn cv = Some u"
    and "time_Now env (world s) = (now, w1)"
    and "net_Conn_SetReadDeadline env u (time_Add env now (Conn.ReadTimeout cv)) w1 = (rerr, wr)"
    and "net_Conn_SetWriteDeadline env u (time_Add env now (Conn.WriteTimeout cv)) w1 = (werr, ww)"
  shows "(rerr \<noteq> None \<longrightarrow>
            Conn_Read env c b s = Inr ((0, rerr, b), s\<lparr>world := wr\<rparr>) \<and>
            (\<forall>f. Conn_Read (env\<lparr>net_Conn_Read := f\<rparr>) c b s = Conn_Read env c b s)) \<and>
         (rerr = None \<longrightarrow>
            Conn_Read env c b s =
              Inr (fst (net_Conn_Read env u b wr), s\<lparr>world := snd (net_Conn_Read env u b wr)\<rparr>)) \<and>
         (werr \<noteq> None \<longrightarrow>
            Conn_Write env c b s = Inr ((0, werr, b), s\<lparr>world := ww\<rparr>) \<and>
            (\<forall>f. Conn_Write (env\<lparr>net_Conn_Write := f\<rparr>) c b s = Conn_Write env c b s)) \<and>
         (werr = None \<longrightarrow>
            Conn_Write env c b s =
              Inr (fst (net_Conn_Write env u b ww), s\<lparr>world := snd (net_Conn_Write env u b ww)\<rparr>))"
  using assms by (auto simp: Conn_Read_def Conn_Write_def split: prod.splits)

theorem Conn_Read_Write_deadline_first_witness:
  "Conn_Read scripted 0 [1, 2] served =
     Inr ((0, Some (Error ''use of closed network connection''), [1, 2]),
          served\<lparr>world := [Call_Now, Call_SetReadDeadline 0 1005]\<rparr>) \<and>
   Conn_Write scripted 0 [1, 2] served =
     Inr ((0, Some (Error ''use of closed network connection''), [1, 2]),
          served\<lparr>world := [Call_Now, Call_SetWriteDeadline 0 1009]\<rparr>) \<and>
   Conn_Read scripted 1 [1, 2] served =
     Inr ((1, None, [104, 2]),
          served\<lparr>world := [Call_Now, Call_SetReadDeadline 7 1005, Call_Read 7]\<rparr>) \<and>
   Conn_Write scripted 1 [1, 2] served =
     Inr ((2, None, [1, 2]),
          served\<lparr>world := [Call_Now, Call_SetWriteDeadline 7 1009, Call_Write 7 [1, 2]]\<rparr>)"
  using Conn_Read_Write_deadline_first
          [of served 0 "\<lparr>Conn = Some 0, ReadTimeout = 5, WriteTimeout = 9\<rparr>" 0 scripted 1000 "[Call_Now]"
              "Some (Error ''use of closed network connection'')" "[Call_Now, Call_SetReadDeadline 0 1005]"
              "Some (Error ''use of closed network connection'')" "[Call_Now, Call_SetWriteDeadline 0 1009]" "[1, 2]"]
        Conn_Read_Write_deadline_first
          [of served 1 "\<lparr>Conn = Some 7, ReadTimeout = 5, WriteTimeout = 9\<rparr>" 7 scripted 1000 "[Call_Now]"
              None "[Call_Now, Call_SetReadDeadline 7 1005]"
              None "[Call_Now, Call_SetWriteDeadline 7 1009]" "[1, 2]"]
  by (simp add: deref_def scripted_def served_def)

text \<open>
  \<^bold>\<open>C2.\<close> Let \<open>l\<close> point to a \<open>Listener\<close> around the listener \<open>u\<close>. \<open>Accept\<close> calls
  \<^verbatim>\<open>u.Accept()\<close>. When that returns no error, \<open>Accept\<close> returns a pointer that was not
  allocated before, to a \<open>Conn\<close> holding exactly the accepted connection and the
  listener's two timeouts; nothing else is allocated or changed. When it returns an error,
  \<open>Accept\<close> returns nil and that error, and allocates nothing.
\<close>

theorem Listener_Accept_wraps:
  assumes "deref (listeners s) l = Some lv"
    and "Listener.Listener lv = Some u"
    and "net_Listener_Accept env u (world s) = ((c, err), w1)"
  shows "(err = None \<longrightarrow>
            Listener_Accept env l s =
              Inr ((Some (length (conns s)), None),
                   s\<lparr>world := w1,
                     conns := conns s @ [\<lparr>Conn = c,
                                          ReadTimeout = Listener.ReadTimeout lv,
                                          WriteTimeout = Listener.WriteTimeout lv\<rparr>]\<rparr>) \<and>
            deref (conns s) (length (conns s)) = None) \<and>
         (err \<noteq> None \<longrightarrow> Listener_Accept env l s = Inr ((None, err), s\<lparr>world := w1\<rparr>))"
  using assms by (auto simp: Listener_Accept_def deref_def)

theorem Listener_Accept_wraps_witness:
  "Listener_Accept scripted 1 served =
     Inr ((Some 2, None),
          served\<lparr>world := [Call_Accept 2],
                 conns := conns served @ [\<lparr>Conn = Some 1, ReadTimeout = 3, WriteTimeout = 4\<rparr>]\<rparr>) \<and>
   Listener_Accept scripted 0 served =
     Inr ((None, Some (Error ''use of closed network connection'')),
          served\<lparr>world := [Call_Accept 0]\<rparr>)"
  using Listener_Accept_wraps
          [of served 1 "\<lparr>Listener = Some 2, ReadTimeout = 3, WriteTimeout = 4\<rparr>" 2 scripted
              "Some 1" None "[Call_Accept 2]"]
        Listener_Accept_wraps
          [of served 0 "\<lparr>Listener = Some 0, ReadTimeout = 3, WriteTimeout = 4\<rparr>" 0 scripted
              None "Some (Error ''use of closed network connection'')" "[Call_Accept 0]"]
  by (simp add: deref_def scripted_def served_def)

text \<open>
  \<^bold>\<open>C3.\<close> \<^verbatim>\<open>timeout.NewTransport(addr, timeout)\<close> returns a transport with a dial function.
  Called with a network and an address, it calls \<^verbatim>\<open>net.DialTimeout\<close> with them and
  \<open>timeout\<close>. On success it returns a new \<open>Conn\<close> around the dialled connection, with both
  timeouts equal to \<open>timeout\<close>; on failure it returns nil and the dial error, and
  allocates nothing. The constructor of package \<^verbatim>\<open>httptimeout\<close>, given the same duration
  twice, returns the same transport.
\<close>

theorem timeout_NewTransport_dial:
  "\<exists>dial. Dial (timeout_NewTransport env addr timeout) = Some dial \<and>
     (\<forall>network a s conn err w1.
        net_DialTimeout env network a timeout (world s) = ((conn, err), w1) \<longrightarrow>
          (err = None \<longrightarrow>
             dial network a s =
               ((Some (length (conns s)), None),
                s\<lparr>world := w1,
                  conns := conns s @ [\<lparr>Conn = conn, ReadTimeout = timeout, WriteTimeout = timeout\<rparr>]\<rparr>)) \<and>
          (err \<noteq> None \<longrightarrow> dial network a s = ((None, err), s\<lparr>world := w1\<rparr>))) \<and>
     httptimeout_NewTransport env addr timeout timeout = timeout_NewTransport env addr timeout"
  by (auto simp: timeout_NewTransport_def httptimeout_NewTransport_def)

theorem timeout_NewTransport_dial_witness:
  "\<exists>dial. Dial (timeout_NewTransport scripted ''example.org:80'' 30) = Some dial \<and>
     dial ''tcp'' ''up:80'' served =
       ((Some 2, None),
        served\<lparr>world := [Call_DialTimeout ''tcp'' ''up:80'' 30],
               conns := conns served @ [\<lparr>Conn = Some 1, ReadTimeout = 30, WriteTimeout = 30\<rparr>]\<rparr>) \<and>
     dial ''tcp'' ''down:80'' served =
       ((None, Some (Error ''i/o timeout'')),
        served\<lparr>world := [Call_DialTimeout ''tcp'' ''down:80'' 30]\<rparr>)"
proof -
  obtain dial where d: "Dial (timeout_NewTransport scripted ''example.org:80'' 30) = Some dial"
    and h: "\<And>network a s conn err w1.
        net_DialTimeout scripted network a 30 (world s) = ((conn, err), w1) \<Longrightarrow>
          (err = None \<longrightarrow>
             dial network a s =
               ((Some (length (conns s)), None),
                s\<lparr>world := w1,
                  conns := conns s @ [\<lparr>Conn = conn, ReadTimeout = 30, WriteTimeout = 30\<rparr>]\<rparr>)) \<and>
          (err \<noteq> None \<longrightarrow> dial network a s = ((None, err), s\<lparr>world := w1\<rparr>))"
    using timeout_NewTransport_dial [of scripted "''example.org:80''" 30] by blast
  have up: "net_DialTimeout scripted ''tcp'' ''up:80'' 30 (world served) =
              ((Some 1, None), [Call_DialTimeout ''tcp'' ''up:80'' 30])"
    by (simp add: scripted_def served_def)
  have down: "net_DialTimeout scripted ''tcp'' ''down:80'' 30 (world served) =
              ((None, Some (Error ''i/o timeout'')), [Call_DialTimeout ''tcp'' ''down:80'' 30])"
    by (simp add: scripted_def served_def)
  from h[OF up] h[OF down] d show ?thesis
    by (simp add: served_def)
qed

text \<open>
  \<^bold>\<open>C4.\<close> \<open>NewListenerTLS\<close>: if loading the key pair fails, the result is nil and that
  error, no \<open>Listener\<close> is allocated, the world is as \<^verbatim>\<open>tls.LoadX509KeyPair\<close> left it,
  and the outcome does not depend on \<^verbatim>\<open>net.Listen\<close> or \<^verbatim>\<open>tls.NewListener\<close>: no socket
  is bound. If loading succeeds and \<^verbatim>\<open>net.Listen\<close> fails, the result is nil and the bind
  error, no \<open>Listener\<close> is allocated, and \<^verbatim>\<open>tls.NewListener\<close> plays no part. Package
  \<^verbatim>\<open>timeout\<close> does the same on the network \<^verbatim>\<open>"tcp"\<close>.
\<close>

theorem NewListenerTLS_fails_early:
  assumes "tls_LoadX509KeyPair env certFile keyFile (world s) = ((cert, cerr), w1)"
    and "net_Listen env network addr w1 = ((conn, lerr), w2)"
  shows "(cerr \<noteq> None \<longrightarrow>
            httptimeout_NewListenerTLS env network addr certFile keyFile rt wt s =
              ((None, cerr), s\<lparr>world := w1\<rparr>) \<and>
            (\<forall>f g. httptimeout_NewListenerTLS (env\<lparr>net_Listen := f, tls_NewListener := g\<rparr>)
                      network addr certFile keyFile rt wt s =
                    httptimeout_NewListenerTLS env network addr certFile keyFile rt wt s)) \<and>
         (cerr = None \<and> lerr \<noteq> None \<longrightarrow>
            httptimeout_NewListenerTLS env network addr certFile keyFile rt wt s =
              ((None, lerr), s\<lparr>world := w2\<rparr>) \<and>
            (\<forall>g. httptimeout_NewListenerTLS (env\<lparr>tls_NewListener := g\<rparr>)
                    network addr certFile keyFile rt wt s =
                  httptimeout_NewListenerTLS env network addr certFile keyFile rt wt s)) \<and>
         timeout_NewListenerTLS env addr certFile keyFile rt wt s =
           httptimeout_NewListenerTLS env ''tcp'' addr certFile keyFile rt wt s"
  using assms
  by (auto simp: httptimeout_NewListenerTLS_def timeout_NewListenerTLS_tcp Let_def)

theorem NewListenerTLS_fails_early_witness:
  "httptimeout_NewListenerTLS scripted ''tcp'' '':8443'' ''none.pem'' ''key.pem'' 3 4 served =
     ((None, Some (Error ''no such file or directory'')),
      served\<lparr>world := [Call_LoadX509KeyPair ''none.pem'' ''key.pem'']\<rparr>) \<and>
   httptimeout_NewListenerTLS scripted ''tcp'' '':1'' ''cert.pem'' ''key.pem'' 3 4 served =
     ((None, Some (Error ''permission denied'')),
      served\<lparr>world := [Call_LoadX509KeyPair ''cert.pem'' ''key.pem'', Call_Listen ''tcp'' '':1'']\<rparr>)"
  using NewListenerTLS_fails_early
          [of scripted "''none.pem''" "''key.pem''" served "Certificate [] []"
              "Some (Error ''no such file or directory'')" "[Call_LoadX509KeyPair ''none.pem'' ''key.pem'']"
              "''tcp''" "'':8443''" "Some 2" None
              "[Call_LoadX509KeyPair ''none.pem'' ''key.pem'', Call_Listen ''tcp'' '':8443'']" 3 4]
        NewListenerTLS_fails_early
          [of scripted "''cert.pem''" "''key.pem''" served "Certificate [[48]] [49]"
              None "[Call_LoadX509KeyPair ''cert.pem'' ''key.pem'']"
              "''tcp''" "'':1''" None "Some (Error ''permission denied'')"
              "[Call_LoadX509KeyPair ''cert.pem'' ''key.pem'', Call_Listen ''tcp'' '':1'']" 3 4]
  by (simp add: scripted_def served_def)

text \<open>
  \<^bold>\<open>C5.\<close> When the key pair loads and the bind succeeds, \<open>NewListenerTLS\<close> hands
  \<^verbatim>\<open>tls.NewListener\<close> the bound listener and a configuration whose protocol list is exactly
  \<^verbatim>\<open>["http/1.1"]\<close> and whose certificates are the loaded one. The configuration is a local
  value: the world after the call is what the three library calls made of it, and the only
  other change is the new \<open>Listener\<close>. Overwriting the protocol list of whatever
  configuration reaches \<^verbatim>\<open>tls.NewListener\<close> with \<^verbatim>\<open>["http/1.1"]\<close> changes nothing.
\<close>

theorem NewListenerTLS_NextProtos:
  assumes "tls_LoadX509KeyPair env certFile keyFile (world s) = ((cert, None), w1)"
    and "net_Listen env network addr w1 = ((conn, None), w2)"
    and "tls_NewListener env conn \<lparr>NextProtos = Some [''http/1.1''], Certificates = [cert]\<rparr> w2 = (inner, w3)"
  shows "httptimeout_NewListenerTLS env network addr certFile keyFile rt wt s =
           ((Some (length (listeners s)), None),
            s\<lparr>world := w3,
              listeners := listeners s @ [\<lparr>Listener = inner, ReadTimeout = rt, WriteTimeout = wt\<rparr>]\<rparr>) \<and>
         httptimeout_NewListenerTLS
             (env\<lparr>tls_NewListener :=
                    \<lambda>l config. tls_NewListener env l (config\<lparr>NextProtos := Some [''http/1.1'']\<rparr>)\<rparr>)
             network addr certFile keyFile rt wt s =
           httptimeout_NewListenerTLS env network addr certFile keyFile rt wt s \<and>
         timeout_NewListenerTLS env addr certFile keyFile rt wt s =
           httptimeout_NewListenerTLS env ''tcp'' addr certFile keyFile rt wt s"
  using assms
  by (auto simp: httptimeout_NewListenerTLS_def timeout_NewListenerTLS_tcp Let_def)

theorem NewListenerTLS_NextProtos_witness:
  "httptimeout_NewListenerTLS scripted ''tcp'' '':8443'' ''cert.pem'' ''key.pem'' 3 4 served =
     ((Some 2, None),
      served\<lparr>world := [Call_LoadX509KeyPair ''cert.pem'' ''key.pem'',
                       Call_Listen ''tcp'' '':8443'',
                       Call_NewListener (Some 2)
                         \<lparr>NextProtos = Some [''http/1.1''], Certificates = [Certificate [[48]] [49]]\<rparr>],
             listeners := listeners served @ [\<lparr>Listener = Some 3, ReadTimeout = 3, WriteTimeout = 4\<rparr>]\<rparr>)"
  using NewListenerTLS_NextProtos
          [of scripted "''cert.pem''" "''key.pem''" served "Certificate [[48]] [49]"
              "[Call_LoadX509KeyPair ''cert.pem'' ''key.pem'']"
              "''tcp''" "'':8443''" "Some 2"
              "[Call_LoadX509KeyPair ''cert.pem'' ''key.pem'', Call_Listen ''tcp'' '':8443'']"
              "Some 3"
              "[Call_LoadX509KeyPair ''cert.pem'' ''key.pem'', Call_Listen ''tcp'' '':8443'',
                Call_NewListener (Some 2)
                  \<lparr>NextProtos = Some [''http/1.1''], Certificates = [Certificate [[48]] [49]]\<rparr>]" 3 4]
  by (simp add: scripted_def served_def)

text \<open>
  \<^bold>\<open>C6.\<close> Let \<open>c\<close> point to a \<open>Conn\<close> around the connection \<open>u\<close>. \<open>Close\<close>, \<open>LocalAddr\<close>,
  \<open>RemoteAddr\<close> and the three deadline setters on \<open>c\<close> return what the same method of
  \<open>u\<close> returns, and change the state only as that method changes the world.
\<close>

theorem Conn_passthrough:
  assumes "deref (conns s) c = Some cv"
    and "Conn.Conn cv = Some u"
  shows "Conn_Close env c s =
           Inr (fst (net_Conn_Close env u (world s)), s\<lparr>world := snd (net_Conn_Close env u (world s))\<rparr>) \<and>
         Conn_LocalAddr env c s =
           Inr (fst (net_Conn_LocalAddr env u (world s)), s\<lparr>world := snd (net_Conn_LocalAddr env u (world s))\<rparr>) \<and>
         Conn_RemoteAddr env c s =
           Inr (fst (net_Conn_RemoteAddr env u (world s)), s\<lparr>world := snd (net_Conn_RemoteAddr env u (world s))\<rparr>) \<and>
         Conn_SetDeadline env c t s =
           Inr (fst (net_Conn_SetDeadline env u t (world s)), s\<lparr>world := snd (net_Conn_SetDeadline env u t (world s))\<rparr>) \<and>
         Conn_SetReadDeadline env c t s =
           Inr (fst (net_Conn_SetReadDeadline env u t (world s)),
                s\<lparr>world := snd (net_Conn_SetReadDeadline env u t (world s))\<rparr>) \<and>
         Conn_SetWriteDeadline env c t s =
           Inr (fst (net_Conn_SetWriteDeadline env u t (world s)),
                s\<lparr>world := snd (net_Conn_SetWriteDeadline env u t (world s))\<rparr>)"
  using assms
  by (simp add: Conn_Close_def Conn_LocalAddr_def Conn_RemoteAddr_def Conn_SetDeadline_def
        Conn_SetReadDeadline_def Conn_SetWriteDeadline_def promoted_def split: prod.splits)

theorem Conn_passthrough_witness:
  "Conn_Close scripted 1 served = Inr (None, served\<lparr>world := [Call_Close 7]\<rparr>) \<and>
   Conn_LocalAddr scripted 1 served =
     Inr (Some (''tcp'', ''127.0.0.1:8080''), served\<lparr>world := [Call_LocalAddr 7]\<rparr>) \<and>
   Conn_RemoteAddr scripted 1 served =
     Inr (Some (''tcp'', ''10.0.0.2:4711''), served\<lparr>world := [Call_RemoteAddr 7]\<rparr>) \<and>
   Conn_SetDeadline scripted 1 2000 served = Inr (None, served\<lparr>world := [Call_SetDeadline 7 2000]\<rparr>) \<and>
   Conn_SetReadDeadline scripted 1 2000 served =
     Inr (None, served\<lparr>world := [Call_SetReadDeadline 7 2000]\<rparr>) \<and>
   Conn_SetWriteDeadline scripted 1 2000 served =
     Inr (None, served\<lparr>world := [Call_SetWriteDeadline 7 2000]\<rparr>)"
  using Conn_passthrough
          [of served 1 "\<lparr>Conn = Some 7, ReadTimeout = 5, WriteTimeout = 9\<rparr>" 7 scripted 2000]
  by (simp add: deref_def scripted_def served_def)

text \<open>
  \<^bold>\<open>C7.\<close> After any sequence of calls (methods of any \<open>Conn\<close> or \<open>Listener\<close>,
  constructors, dials) that ends without a panic, every \<open>Conn\<close> and every \<open>Listener\<close>
  that existed before is still there with the \<open>ReadTimeout\<close> and \<open>WriteTimeout\<close> it
  had.
\<close>

theorem timeouts_never_change:
  assumes "run env ms s = Inr s1"
  shows "(\<forall>c cv. deref (conns s) c = Some cv \<longrightarrow>
            (\<exists>cv1. deref (conns s1) c = Some cv1 \<and>
                   Conn.ReadTimeout cv1 = Conn.ReadTimeout cv \<and>
                   Conn.WriteTimeout cv1 = Conn.WriteTimeout cv)) \<and>
         (\<forall>l lv. deref (listeners s) l = Some lv \<longrightarrow>
            (\<exists>lv1. deref (listeners s1) l = Some lv1 \<and>
                   Listener.ReadTimeout lv1 = Listener.ReadTimeout lv \<and>
                   Listener.WriteTimeout lv1 = Listener.WriteTimeout lv))"
  using run_extends[OF assms] by (auto dest: extends_deref_conns extends_deref_listeners)

theorem timeouts_never_change_witness:
  "\<exists>s1. run scripted [Op_Read 1 [0], Op_Accept 1, Op_Write 2 [1], Op_Close 1,
                      Op_httptimeout_NewListener ''tcp'' '':8080'' 1 2, Op_ListenerClose 2] served = Inr s1 \<and>
     (\<exists>cv1. deref (conns s1) 1 = Some cv1 \<and> Conn.ReadTimeout cv1 = 5 \<and> Conn.WriteTimeout cv1 = 9) \<and>
     (\<exists>lv1. deref (listeners s1) 1 = Some lv1 \<and>
            Listener.ReadTimeout lv1 = 3 \<and> Listener.WriteTimeout lv1 = 4)"
proof -
  have "\<exists>s1. run scripted [Op_Read 1 [0], Op_Accept 1, Op_Write 2 [1], Op_Close 1,
                Op_httptimeout_NewListener ''tcp'' '':8080'' 1 2, Op_ListenerClose 2] served = Inr s1"
    by (simp add: Conn_Read_def Conn_Write_def Conn_Close_def Listener_Accept_def Listener_Close_def
          httptimeout_NewListener_def promoted_def deref_def scripted_def served_def)
  then obtain s1 where r: "run scripted [Op_Read 1 [0], Op_Accept 1, Op_Write 2 [1], Op_Close 1,
                Op_httptimeout_NewListener ''tcp'' '':8080'' 1 2, Op_ListenerClose 2] served = Inr s1"
    by blast
  have c: "deref (conns served) 1 = Some \<lparr>Conn = Some 7, ReadTimeout = 5, WriteTimeout = 9\<rparr>"
    by (simp add: deref_def served_def)
  have l: "deref (listeners served) 1 = Some \<lparr>Listener = Some 2, ReadTimeout = 3, WriteTimeout = 4\<rparr>"
    by (simp add: deref_def served_def)
  from timeouts_never_change[OF r] c l
  have "(\<exists>cv1. deref (conns s1) 1 = Some cv1 \<and> Conn.ReadTimeout cv1 = 5 \<and> Conn.WriteTimeout cv1 = 9) \<and>
        (\<exists>lv1. deref (listeners s1) 1 = Some lv1 \<and>
               Listener.ReadTimeout lv1 = 3 \<and> Listener.WriteTimeout lv1 = 4)"
    by fastforce
  with r show ?thesis
    by blast
qed

text \<open>
  \<^bold>\<open>C8.\<close> \<^verbatim>\<open>httptimeout.NewListener(network, addr, readTimeout, writeTimeout)\<close> calls
  \<^verbatim>\<open>net.Listen(network, addr)\<close>. On success it returns a new \<open>Listener\<close> around the bound
  listener with the two timeouts given; on failure it returns nil and the bind error and
  allocates nothing. \<^verbatim>\<open>timeout.NewListener(addr, readTimeout, writeTimeout)\<close> is the same
  on the network \<^verbatim>\<open>"tcp"\<close>.
\<close>

theorem httptimeout_NewListener_binds:
  assumes "net_Listen env network addr (world s) = ((conn, err), w1)"
  shows "(err = None \<longrightarrow>
            httptimeout_NewListener env network addr readTimeout writeTimeout s =
              ((Some (length (listeners s)), None),
               s\<lparr>world := w1,
                 listeners := listeners s @ [\<lparr>Listener = conn,
                                              ReadTimeout = readTimeout,
                                              WriteTimeout = writeTimeout\<rparr>]\<rparr>)) \<and>
         (err \<noteq> None \<longrightarrow>
            httptimeout_NewListener env network addr readTimeout writeTimeout s =
              ((None, err), s\<lparr>world := w1\<rparr>)) \<and>
         timeout_NewListener env addr readTimeout writeTimeout s =
           httptimeout_NewListener env ''tcp'' addr readTimeout writeTimeout s"
  using assms by (auto simp: httptimeout_NewListener_def timeout_NewListener_tcp)

theorem httptimeout_NewListener_binds_witness:
  "httptimeout_NewListener scripted ''unix'' ''/run/s.sock'' 3 4 served =
     ((Some 2, None),
      served\<lparr>world := [Call_Listen ''unix'' ''/run/s.sock''],
             listeners := listeners served @ [\<lparr>Listener = Some 1, ReadTimeout = 3, WriteTimeout = 4\<rparr>]\<rparr>) \<and>
   httptimeout_NewListener scripted ''tcp'' '':1'' 3 4 served =
     ((None, Some (Error ''permission denied'')), served\<lparr>world := [Call_Listen ''tcp'' '':1'']\<rparr>)"
  using httptimeout_NewListener_binds
          [of scripted "''unix''" "''/run/s.sock''" served "Some 1" None
              "[Call_Listen ''unix'' ''/run/s.sock'']" 3 4]
        httptimeout_NewListener_binds
          [of scripted "''tcp''" "'':1''" served None "Some (Error ''permission denied'')"
              "[Call_Listen ''tcp'' '':1'']" 3 4]
  by (simp add: scripted_def served_def)

text \<open>
  \<^bold>\<open>C9.\<close> In both packages the transport returned by \<open>NewTransport\<close> does not depend on
  the address argument.
\<close>

theorem NewTransport_ignores_addr:
  "timeout_NewTransport env a1 timeout = timeout_NewTransport env a2 timeout \<and>
   httptimeout_NewTransport env a1 readTimeout writeTimeout =
     httptimeout_NewTransport env a2 readTimeout writeTimeout"
  by (simp add: timeout_NewTransport_def httptimeout_NewTransport_def)

theorem NewTransport_ignores_addr_witness:
  "timeout_NewTransport scripted ''example.org:80'' 30 = timeout_NewTransport scripted ''example.net:443'' 30 \<and>
   httptimeout_NewTransport scripted ''example.org:80'' 30 60 =
     httptimeout_NewTransport scripted ''example.net:443'' 30 60"
  using NewTransport_ignores_addr [of scripted "''example.org:80''" 30 "''example.net:443''" 30 60]
  by simp

text \<open>
  \<^bold>\<open>C10.\<close> The dial function of \<^verbatim>\<open>httptimeout.NewTransport(addr, readTimeout, writeTimeout)\<close>
  calls \<^verbatim>\<open>net.DialTimeout\<close> with \<open>readTimeout\<close>, and on success wraps the connection with
  \<open>readTimeout\<close> for reads and \<open>writeTimeout\<close> for writes. What \<^verbatim>\<open>net.DialTimeout\<close>
  does for any other duration, \<open>writeTimeout\<close> included, has no influence on it.
\<close>

theorem httptimeout_NewTransport_dial:
  "\<exists>dial. Dial (httptimeout_NewTransport env addr readTimeout writeTimeout) = Some dial \<and>
     (\<forall>network a s conn err w1.
        net_DialTimeout env network a readTimeout (world s) = ((conn, err), w1) \<longrightarrow>
          (err = None \<longrightarrow>
             dial network a s =
               ((Some (length (conns s)), None),
                s\<lparr>world := w1,
                  conns := conns s @ [\<lparr>Conn = conn,
                                       ReadTimeout = readTimeout,
                                       WriteTimeout = writeTimeout\<rparr>]\<rparr>)) \<and>
          (err \<noteq> None \<longrightarrow> dial network a s = ((None, err), s\<lparr>world := w1\<rparr>))) \<and>
     (\<forall>f. (\<forall>network a w. f network a readTimeout w = net_DialTimeout env network a readTimeout w) \<longrightarrow>
          Dial (httptimeout_NewTransport (env\<lparr>net_DialTimeout := f\<rparr>) addr readTimeout writeTimeout) =
            Some dial)"
  by (auto simp: httptimeout_NewTransport_def)

theorem httptimeout_NewTransport_dial_witness:
  "\<exists>dial. Dial (httptimeout_NewTransport scripted ''example.org:80'' 30 60) = Some dial \<and>
     dial ''tcp'' ''up:80'' served =
       ((Some 2, None),
        served\<lparr>world := [Call_DialTimeout ''tcp'' ''up:80'' 30],
               conns := conns served @ [\<lparr>Conn = Some 1, ReadTimeout = 30, WriteTimeout = 60\<rparr>]\<rparr>) \<and>
     dial ''tcp'' ''down:80'' served =
       ((None, Some (Error ''i/o timeout'')),
        served\<lparr>world := [Call_DialTimeout ''tcp'' ''down:80'' 30]\<rparr>)"
proof -
  obtain dial where d: "Dial (httptimeout_NewTransport scripted ''example.org:80'' 30 60) = Some dial"
    and h: "\<And>network a s conn err w1.
        net_DialTimeout scripted network a 30 (world s) = ((conn, err), w1) \<Longrightarrow>
          (err = None \<longrightarrow>
             dial network a s =
               ((Some (length (conns s)), None),
                s\<lparr>world := w1,
                  conns := conns s @ [\<lparr>Conn = conn, ReadTimeout = 30, WriteTimeout = 60\<rparr>]\<rparr>)) \<and>
          (err \<noteq> None \<longrightarrow> dial network a s = ((None, err), s\<lparr>world := w1\<rparr>))"
    using httptimeout_NewTransport_dial [of scripted "''example.org:80''" 30 60] by blast
  have up: "net_DialTimeout scripted ''tcp'' ''up:80'' 30 (world served) =
              ((Some 1, None), [Call_DialTimeout ''tcp'' ''up:80'' 30])"
    by (simp add: scripted_def served_def)
  have down: "net_DialTimeout scripted ''tcp'' ''down:80'' 30 (world served) =
              ((None, Some (Error ''i/o timeout'')), [Call_DialTimeout ''tcp'' ''down:80'' 30])"
    by (simp add: scripted_def served_def)
  from h[OF up] h[OF down] d show ?thesis
    by (simp add: served_def)
qed

end
